theory Spec2Isabelle
  imports Main
begin

section \<open>The collaborative editor component (src/CollaborativeEditor.js)\<close>

text \<open>
  The component keeps its state in React hooks: the document, the user list, the
  history with its index, the selected text, the toolbar flags and the handle of the
  typing timer. Each handler of the source is a function from the state before the
  event to the state after it. Values that a handler reads from outside the component
  (the textarea's selection, the clock, the file that was read) are arguments of the
  handler. Floating-point arithmetic is not modelled: where the source computes with
  \<open>Math.random()\<close>, the handler takes the values of those expressions as arguments.

  JavaScript strings are modelled as \<open>string\<close>, one \<open>char\<close> per code unit; JavaScript
  numbers that hold indices and counters are modelled as \<open>int\<close>.
\<close>

subsection \<open>JavaScript library functions used by the component\<close>

text \<open>
  \<open>Array.prototype.slice(start, end)\<close>: a negative index counts from the end of the
  array, and every index is clamped into \<open>[0, length]\<close>.
\<close>

definition rel_index :: "int \<Rightarrow> int \<Rightarrow> int" where
  "rel_index n k = (if k < 0 then max (n + k) 0 else min k n)"

definition js_slice :: "'a list \<Rightarrow> int \<Rightarrow> int \<Rightarrow> 'a list" where
  "js_slice xs start fin =
     (let n = int (length xs); a = rel_index n start; b = rel_index n fin
      in take (nat (b - a)) (drop (nat a) xs))"

text \<open>\<open>slice(start)\<close> with the end left out runs to the end of the array.\<close>

definition js_slice_from :: "'a list \<Rightarrow> int \<Rightarrow> 'a list" where
  "js_slice_from xs start = js_slice xs start (int (length xs))"

text \<open>
  \<open>xs[i]\<close>: reading an array outside its range gives \<open>undefined\<close>, here \<open>None\<close>.
\<close>

definition js_index :: "'a list \<Rightarrow> int \<Rightarrow> 'a option" where
  "js_index xs i = (if 0 \<le> i \<and> i < int (length xs) then Some (xs ! nat i) else None)"

text \<open>
  \<open>String.prototype.substring(start, end)\<close>: both arguments are clamped into
  \<open>[0, length]\<close> and swapped when the first is the larger one.
\<close>

definition clamp_index :: "int \<Rightarrow> int \<Rightarrow> int" where
  "clamp_index n k = min (max k 0) n"

definition js_substring :: "string \<Rightarrow> int \<Rightarrow> int \<Rightarrow> string" where
  "js_substring s start fin =
     (let n = int (length s); a = clamp_index n start; b = clamp_index n fin;
          lo = min a b; hi = max a b
      in take (nat (hi - lo)) (drop (nat lo) s))"

definition js_substring_from :: "string \<Rightarrow> int \<Rightarrow> string" where
  "js_substring_from s start = js_substring s start (int (length s))"

text \<open>
  \<open>String.prototype.split(sep)\<close> for a separator of one character: the segments
  between the occurrences of the separator, in order; the empty string gives one
  empty segment.
\<close>

fun js_split :: "char \<Rightarrow> string \<Rightarrow> string list" where
  "js_split sep [] = [[]]"
| "js_split sep (c # cs) =
     (if c = sep then [] # js_split sep cs
      else (case js_split sep cs of
              [] \<Rightarrow> [[c]]
            | seg # rest \<Rightarrow> (c # seg) # rest))"

definition newline :: char where
  "newline = CHR 0x0A"

text \<open>
  \<open>name.replace(/\.[^/.]+$/, "")\<close>: the leftmost place where a dot is followed, up to
  the end of the string, by one or more characters that are neither a slash nor a dot
  is cut off together with everything after it. A string with no such place is
  returned as it is.
\<close>

fun no_slash_dot :: "string \<Rightarrow> bool" where
  "no_slash_dot [] = True"
| "no_slash_dot (c # cs) = (c \<noteq> CHR ''/'' \<and> c \<noteq> CHR ''.'' \<and> no_slash_dot cs)"

fun strip_extension :: "string \<Rightarrow> string" where
  "strip_extension [] = []"
| "strip_extension (c # cs) =
     (if c = CHR ''.'' \<and> cs \<noteq> [] \<and> no_slash_dot cs then []
      else c # strip_extension cs)"

subsection \<open>The state of the component\<close>

record document_state =
  title :: string
  content :: string
  lastModified :: string
  version :: int

record user =
  user_id :: int
  name :: string
  color :: string
  cursor :: int
  active :: bool

record formatting_state =
  bold :: bool
  italic :: bool
  underline :: bool
  align :: string

datatype format = Bold | Italic | Underline

text \<open>
  A callback that is waiting to run keeps the variables of the render that created
  it. The typing timer's callback calls \<open>saveToHistory\<close> of the render in which the
  keystroke was handled, and that \<open>saveToHistory\<close> closes over the \<open>historyIndex\<close> of
  that render (\<open>useCallback(..., [historyIndex])\<close>). The same holds for the \<open>onload\<close>
  callback of a file that is being read. So a waiting callback is stored with the
  content it will save and the \<open>historyIndex\<close> it has captured.
\<close>

record pending_save =
  saved_content :: string
  captured_index :: int

record pending_read =
  file_name :: string
  file_text :: string
  read_captured_index :: int

record editor =
  document :: document_state
  users :: "user list"
  isTyping :: bool
  showUsers :: bool
  history :: "string list"
  historyIndex :: int
  selectedText :: string
  formatting :: formatting_state
  typingTimeout :: "pending_save option"
  readers :: "pending_read list"

definition initial_users :: "user list" where
  "initial_users =
     [\<lparr>user_id = 1, name = ''You'', color = ''#3B82F6'', cursor = 0, active = True\<rparr>,
      \<lparr>user_id = 2, name = ''Alice'', color = ''#EF4444'', cursor = 15, active = True\<rparr>,
      \<lparr>user_id = 3, name = ''Bob'', color = ''#10B981'', cursor = 32, active = False\<rparr>]"

text \<open>The state of the first render; \<open>now\<close> is the clock's reading at that moment.\<close>

definition initial :: "string \<Rightarrow> editor" where
  "initial now =
     \<lparr>document = \<lparr>title = ''Untitled Document'', content = [],
                   lastModified = now, version = 1\<rparr>,
      users = initial_users,
      isTyping = False,
      showUsers = True,
      history = [],
      historyIndex = - 1,
      selectedText = [],
      formatting = \<lparr>bold = False, italic = False, underline = False,
                     align = ''left''\<rparr>,
      typingTimeout = None,
      readers = []\<rparr>"

subsection \<open>The history\<close>

text \<open>
  \<open>saveToHistory(content)\<close>. The array is cut at the \<open>historyIndex\<close> that the calling
  closure has captured (\<open>hi\<close>), the content is pushed and the last 50 entries are kept;
  the index is advanced from its current value by the updater \<open>prev => prev + 1\<close>.
\<close>

definition saveToHistory :: "int \<Rightarrow> string \<Rightarrow> editor \<Rightarrow> editor" where
  "saveToHistory hi c st =
     (let newHistory = js_slice (history st) 0 (hi + 1) @ [c]
      in st\<lparr>history := js_slice_from newHistory (- 50),
            historyIndex := historyIndex st + 1\<rparr>)"

text \<open>
  A render reads \<open>document.content.split(...)\<close> in the status bar (and
  \<open>content.substring(...)\<close> in the user list), so a render with \<open>content\<close> undefined
  throws a \<open>TypeError\<close> and React unmounts the component. \<open>undo\<close> and \<open>redo\<close> are the
  two handlers that store an array read in \<open>content\<close>; a read outside the array is
  modelled as that failure of the render which follows the handler.
\<close>

datatype error = TypeError

definition undo :: "editor \<Rightarrow> error + editor" where
  "undo st =
     (if historyIndex st > 0 then
        (case js_index (history st) (historyIndex st - 1) of
           None \<Rightarrow> Inl TypeError
         | Some c \<Rightarrow>
             Inr (st\<lparr>historyIndex := historyIndex st - 1,
                      document := (document st)\<lparr>content := c\<rparr>\<rparr>))
      else Inr st)"

definition redo :: "editor \<Rightarrow> error + editor" where
  "redo st =
     (if historyIndex st < int (length (history st)) - 1 then
        (case js_index (history st) (historyIndex st + 1) of
           None \<Rightarrow> Inl TypeError
         | Some c \<Rightarrow>
             Inr (st\<lparr>historyIndex := historyIndex st + 1,
                      document := (document st)\<lparr>content := c\<rparr>\<rparr>))
      else Inr st)"

subsection \<open>Editing\<close>

definition set_cursor :: "int \<Rightarrow> int \<Rightarrow> user list \<Rightarrow> user list" where
  "set_cursor uid pos us = map (\<lambda>u. if user_id u = uid then u\<lparr>cursor := pos\<rparr> else u) us"

text \<open>
  \<open>handleContentChange(e)\<close>: \<open>newContent\<close> is \<open>e.target.value\<close>, \<open>cursorPosition\<close> is
  \<open>e.target.selectionStart\<close> and \<open>now\<close> the clock's reading. The pending timer is
  cleared and a new one is started.
\<close>

definition handleContentChange :: "string \<Rightarrow> int \<Rightarrow> string \<Rightarrow> editor \<Rightarrow> editor" where
  "handleContentChange newContent cursorPosition now st =
     st\<lparr>document := (document st)\<lparr>content := newContent, lastModified := now,
                         version := version (document st) + 1\<rparr>,
        users := set_cursor 1 cursorPosition (users st),
        isTyping := True,
        typingTimeout :=
          Some \<lparr>saved_content = newContent, captured_index = historyIndex st\<rparr>\<rparr>"

text \<open>The callback of the typing timer, 1000 ms after the last keystroke.\<close>

definition typing_timeout_fires :: "editor \<Rightarrow> editor" where
  "typing_timeout_fires st =
     (case typingTimeout st of
        None \<Rightarrow> st
      | Some p \<Rightarrow>
          saveToHistory (captured_index p) (saved_content p)
            (st\<lparr>isTyping := False, typingTimeout := None\<rparr>))"

definition handleTitleChange :: "string \<Rightarrow> editor \<Rightarrow> editor" where
  "handleTitleChange t st = st\<lparr>document := (document st)\<lparr>title := t\<rparr>\<rparr>"

text \<open>
  \<open>handleTextSelection()\<close>: \<open>start\<close> and \<open>fin\<close> are the textarea's \<open>selectionStart\<close> and
  \<open>selectionEnd\<close>.
\<close>

definition handleTextSelection :: "int \<Rightarrow> int \<Rightarrow> editor \<Rightarrow> editor" where
  "handleTextSelection start fin st =
     st\<lparr>selectedText := js_substring (content (document st)) start fin\<rparr>"

definition wrap_format :: "format \<Rightarrow> string \<Rightarrow> string" where
  "wrap_format f s =
     (case f of
        Bold \<Rightarrow> ''**'' @ s @ ''**''
      | Italic \<Rightarrow> ''*'' @ s @ ''*''
      | Underline \<Rightarrow> ''__'' @ s @ ''__'')"

definition toggle_flag :: "format \<Rightarrow> formatting_state \<Rightarrow> formatting_state" where
  "toggle_flag f fl =
     (case f of
        Bold \<Rightarrow> fl\<lparr>bold := \<not> bold fl\<rparr>
      | Italic \<Rightarrow> fl\<lparr>italic := \<not> italic fl\<rparr>
      | Underline \<Rightarrow> fl\<lparr>underline := \<not> underline fl\<rparr>)"

text \<open>
  \<open>applyFormatting(format)\<close>, called by the three toolbar buttons with \<open>'bold'\<close>,
  \<open>'italic'\<close> and \<open>'underline'\<close>; \<open>start\<close> and \<open>fin\<close> are the textarea's
  \<open>selectionStart\<close> and \<open>selectionEnd\<close> at the click.
\<close>

definition applyFormatting :: "format \<Rightarrow> int \<Rightarrow> int \<Rightarrow> editor \<Rightarrow> editor" where
  "applyFormatting f start fin st =
     (if selectedText st = [] then st
      else
        (let beforeText = js_substring (content (document st)) 0 start;
             afterText = js_substring_from (content (document st)) fin;
             formattedText = wrap_format f (selectedText st);
             newContent = beforeText @ formattedText @ afterText
         in st\<lparr>document := (document st)\<lparr>content := newContent\<rparr>,
               formatting := toggle_flag f (formatting st)\<rparr>))"

subsection \<open>File import\<close>

text \<open>
  \<open>importDocument(e)\<close> starts reading \<open>e.target.files[0]\<close> when there is one; the file
  is given by its name and the text that \<open>readAsText\<close> delivers. Nothing of the state
  changes until the reader's \<open>onload\<close> callback runs.
\<close>

definition importDocument :: "(string \<times> string) option \<Rightarrow> editor \<Rightarrow> editor" where
  "importDocument file st =
     (case file of
        None \<Rightarrow> st
      | Some (nm, txt) \<Rightarrow>
          st\<lparr>readers := readers st @
                 [\<lparr>file_name = nm, file_text = txt,
                   read_captured_index = historyIndex st\<rparr>]\<rparr>)"

text \<open>The body of \<open>reader.onload\<close> for a read \<open>p\<close> that has completed.\<close>

definition reader_onload :: "pending_read \<Rightarrow> editor \<Rightarrow> editor" where
  "reader_onload p st =
     saveToHistory (read_captured_index p) (file_text p)
       (st\<lparr>document := (document st)\<lparr>content := file_text p,
                            title := strip_extension (file_name p),
                            version := version (document st) + 1\<rparr>\<rparr>)"

text \<open>The \<open>k\<close>-th read in flight completes.\<close>

definition reader_loads :: "nat \<Rightarrow> editor \<Rightarrow> editor" where
  "reader_loads k st =
     (if k < length (readers st) then
        reader_onload (readers st ! k)
          (st\<lparr>readers := take k (readers st) @ drop (Suc k) (readers st)\<rparr>)
      else st)"

subsection \<open>Cursors\<close>

text \<open>
  The interval callback that simulates the other users. Its three arguments are the
  values of the three expressions of the source that call \<open>Math.random()\<close>, in the
  order of the calls: \<open>passes\<close> is \<open>Math.random() > 0.7\<close>, \<open>pick\<close> is
  \<open>Math.floor(Math.random() * activeUsers.length)\<close> and \<open>randomPosition\<close> is
  \<open>Math.floor(Math.random() * document.content.length)\<close>. Reading \<open>activeUsers\<close>
  outside its range gives \<open>undefined\<close>, whose \<open>id\<close> cannot be read: the update
  throws and the users stay as they are.
\<close>

definition remote_cursor_tick :: "bool \<Rightarrow> int \<Rightarrow> int \<Rightarrow> editor \<Rightarrow> editor" where
  "remote_cursor_tick passes pick randomPosition st =
     (if passes then
        (let activeUsers = filter (\<lambda>u. active u \<and> user_id u \<noteq> 1) (users st)
         in if length activeUsers > 0 then
              (case js_index activeUsers pick of
                 None \<Rightarrow> st
               | Some randomUser \<Rightarrow>
                   st\<lparr>users := set_cursor (user_id randomUser) randomPosition
                                   (users st)\<rparr>)
            else st)
      else st)"

record position =
  line :: int
  column :: int

text \<open>
  \<open>getCursorPosition(position, content)\<close>. Reading the last element of an empty
  \<open>lines\<close> array would give \<open>undefined\<close>, whose \<open>length\<close> throws.
\<close>

definition getCursorPosition :: "int \<Rightarrow> string \<Rightarrow> error + position" where
  "getCursorPosition pos c =
     (let lines = js_split newline (js_substring c 0 pos)
      in case js_index lines (int (length lines) - 1) of
           None \<Rightarrow> Inl TypeError
         | Some l \<Rightarrow> Inr \<lparr>line = int (length lines), column = int (length l) + 1\<rparr>)"

subsection \<open>Sequences of events\<close>

datatype event =
    ContentChange string int string
  | TypingTimeout
  | TitleChange string
  | TextSelection int int
  | ApplyFormatting format int int
  | Undo
  | Redo
  | ImportDocument "(string \<times> string) option"
  | ReaderLoads nat
  | RemoteCursorTick bool int int

fun step :: "event \<Rightarrow> editor \<Rightarrow> error + editor" where
  "step (ContentChange c p now) st = Inr (handleContentChange c p now st)"
| "step TypingTimeout st = Inr (typing_timeout_fires st)"
| "step (TitleChange t) st = Inr (handleTitleChange t st)"
| "step (TextSelection a b) st = Inr (handleTextSelection a b st)"
| "step (ApplyFormatting f a b) st = Inr (applyFormatting f a b st)"
| "step Undo st = undo st"
| "step Redo st = redo st"
| "step (ImportDocument file) st = Inr (importDocument file st)"
| "step (ReaderLoads k) st = Inr (reader_loads k st)"
| "step (RemoteCursorTick passes pick pos) st = Inr (remote_cursor_tick passes pick pos st)"

fun run :: "event list \<Rightarrow> editor \<Rightarrow> error + editor" where
  "run [] st = Inr st"
| "run (e # es) st = (case step e st of Inl err \<Rightarrow> Inl err | Inr st' \<Rightarrow> run es st')"

subsection \<open>Operations and predicates used in the statements\<close>

text \<open>
  A commit: \<open>saveToHistory\<close> called from the closure of the current render, which has
  captured the current \<open>historyIndex\<close>.
\<close>

definition commit :: "string \<Rightarrow> editor \<Rightarrow> editor" where
  "commit c st = saveToHistory (historyIndex st) c st"

fun commits :: "string list \<Rightarrow> editor \<Rightarrow> editor" where
  "commits [] st = st"
| "commits (c # cs) st = commits cs (commit c st)"

text \<open>
  The events of a user who types each content of the list in turn, with the cursor at
  the end of the text, and lets the typing timer run out after each.
\<close>

fun type_and_wait :: "string list \<Rightarrow> event list" where
  "type_and_wait [] = []"
| "type_and_wait (c # cs) =
     ContentChange c (int (length c)) [] # TypingTimeout # type_and_wait cs"

definition undo_then_redo :: "editor \<Rightarrow> error + editor" where
  "undo_then_redo st = (case undo st of Inl e \<Rightarrow> Inl e | Inr st1 \<Rightarrow> redo st1)"

text \<open>Every stored cursor is an offset into the current content.\<close>

definition cursors_in_range :: "editor \<Rightarrow> bool" where
  "cursors_in_range st =
     list_all (\<lambda>u. 0 \<le> cursor u \<and> cursor u \<le> int (length (content (document st))))
       (users st)"

text \<open>
  The specification's description of a position, in its own words: the line is the
  number of segments that the line breaks delimit, the column is the length of the
  final segment plus one. A text with \<open>k\<close> line breaks has \<open>k + 1\<close> segments, and its
  final segment is what follows the last line break.
\<close>

definition segment_count :: "string \<Rightarrow> nat" where
  "segment_count s = Suc (length (filter (\<lambda>c. c = newline) s))"

definition final_segment :: "string \<Rightarrow> string" where
  "final_segment s = rev (takeWhile (\<lambda>c. c \<noteq> newline) (rev s))"

section \<open>Properties\<close>

subsection \<open>Library functions\<close>

lemma js_slice_prefix: "0 \<le> k \<Longrightarrow> js_slice xs 0 k = take (nat k) xs"
  by (simp add: js_slice_def rel_index_def Let_def min_def)

lemma js_slice_from_50: "js_slice_from xs (- 50) = drop (length xs - 50) xs"
proof -
  have "nat (max (int (length xs) - 50) 0) = length xs - 50"
    by (simp add: max_def) arith
  then show ?thesis
    by (simp add: js_slice_from_def js_slice_def rel_index_def Let_def)
qed

lemma length_js_slice_from_50: "length (js_slice_from xs (- 50)) \<le> 50"
  by (simp add: js_slice_from_50)

lemma last_js_slice_from_50: "last (js_slice_from (xs @ [c]) (- 50)) = c"
  by (simp add: js_slice_from_50)

lemma js_substring_prefix: "js_substring c 0 pos = take (nat pos) c"
  by (auto simp add: js_substring_def clamp_index_def Let_def min_def max_def)

lemma js_substring_from_drop: "js_substring_from c fin = drop (nat fin) c"
  by (auto simp add: js_substring_from_def js_substring_def clamp_index_def Let_def
      min_def max_def)

lemma js_split_not_Nil: "js_split sep s \<noteq> []"
  by (induction s) (auto split: list.splits)

lemma length_js_split: "length (js_split sep s) = Suc (length (filter (\<lambda>c. c = sep) s))"
  by (induction s) (auto split: list.splits simp add: js_split_not_Nil)

lemma js_split_no_sep: "sep \<notin> set s \<Longrightarrow> js_split sep s = [s]"
  by (induction s) auto

lemma js_split_append: "js_split sep (xs @ sep # ys) = js_split sep xs @ js_split sep ys"
  by (induction xs) (auto split: list.splits simp add: js_split_not_Nil)

lemma last_js_split: "last (js_split sep s) = rev (takeWhile (\<lambda>c. c \<noteq> sep) (rev s))"
proof (cases "sep \<in> set s")
  case False
  then have "\<forall>x\<in>set (rev s). x \<noteq> sep" by auto
  then have "takeWhile (\<lambda>c. c \<noteq> sep) (rev s) = rev s"
    by (rule takeWhile_eq_all_conv [THEN iffD2])
  then have "rev (takeWhile (\<lambda>c. c \<noteq> sep) (rev s)) = s"
    by (simp only: rev_rev_ident)
  moreover have "last (js_split sep s) = s"
    using False by (simp add: js_split_no_sep)
  ultimately show ?thesis by (simp only:)
next
  case True
  then obtain xs ys where s: "s = xs @ sep # ys" and ys: "sep \<notin> set ys"
    by (auto dest: split_list_last)
  have "takeWhile (\<lambda>c. c \<noteq> sep) (rev ys @ sep # rev xs) = rev ys"
    using ys by (auto simp add: takeWhile_tail)
  then show ?thesis
    using ys by (simp add: s js_split_append js_split_no_sep)
qed

lemma no_slash_dot_append_dot: "\<not> no_slash_dot (xs @ CHR ''.'' # ys)"
  by (induction xs) auto

lemma strip_extension_ext:
  "ext \<noteq> [] \<Longrightarrow> no_slash_dot ext \<Longrightarrow> strip_extension (base @ CHR ''.'' # ext) = base"
  by (induction base) (auto simp add: no_slash_dot_append_dot)

lemma strip_extension_no_dot: "CHR ''.'' \<notin> set nm \<Longrightarrow> strip_extension nm = nm"
  by (induction nm) auto

subsection \<open>The history log\<close>

lemma history_saveToHistory:
  "history (saveToHistory hi c st) =
     js_slice_from (js_slice (history st) 0 (hi + 1) @ [c]) (- 50)"
  by (simp add: saveToHistory_def Let_def)

lemma historyIndex_saveToHistory:
  "historyIndex (saveToHistory hi c st) = historyIndex st + 1"
  by (simp add: saveToHistory_def Let_def)

lemma length_history_saveToHistory: "length (history (saveToHistory hi c st)) \<le> 50"
  by (simp add: history_saveToHistory length_js_slice_from_50)

lemma history_handlers [simp]:
  "history (handleContentChange c p now st) = history st"
  "history (handleTitleChange t st) = history st"
  "history (handleTextSelection a b st) = history st"
  "history (applyFormatting f a b st) = history st"
  "history (importDocument file st) = history st"
  "history (remote_cursor_tick passes pick pos st) = history st"
  by (simp_all add: handleContentChange_def handleTitleChange_def handleTextSelection_def
      applyFormatting_def importDocument_def remote_cursor_tick_def Let_def
      split: option.splits prod.splits)

lemma length_history_step:
  assumes "step e st = Inr st'" and "length (history st) \<le> 50"
  shows "length (history st') \<le> 50"
proof (cases e)
  case TypingTimeout
  with assms show ?thesis
    by (auto simp add: typing_timeout_fires_def length_history_saveToHistory
        split: option.splits)
next
  case Undo
  with assms show ?thesis
    by (auto simp add: undo_def split: if_splits option.splits)
next
  case Redo
  with assms show ?thesis
    by (auto simp add: redo_def split: if_splits option.splits)
next
  case (ReaderLoads k)
  with assms show ?thesis
    by (auto simp add: reader_loads_def reader_onload_def length_history_saveToHistory)
qed (use assms in auto)

lemma length_history_run:
  "run es st = Inr st' \<Longrightarrow> length (history st) \<le> 50 \<Longrightarrow> length (history st') \<le> 50"
proof (induction es arbitrary: st)
  case Nil
  then show ?case by simp
next
  case (Cons e es)
  then show ?case
    by (auto split: sum.splits dest: length_history_step)
qed

lemma fifo_step:
  assumes "length (history st) = 50" and "49 \<le> hi"
  shows "history (saveToHistory hi c st) = tl (history st) @ [c]"
proof -
  have "js_slice (history st) 0 (hi + 1) = history st"
    using assms by (simp add: js_slice_prefix)
  moreover have "history st \<noteq> []"
    using assms by auto
  ultimately show ?thesis
    using assms by (simp add: history_saveToHistory js_slice_from_50 drop_Suc)
qed

lemma commits_append: "commits (cs @ ds) st = commits ds (commits cs st)"
  by (induction cs arbitrary: st) auto

lemma commits_initial:
  "historyIndex (commits cs (initial now)) = int (length cs) - 1 \<and>
   history (commits cs (initial now)) = drop (length cs - 50) cs"
proof (induction cs rule: rev_induct)
  case Nil
  show ?case by (simp add: initial_def)
next
  case (snoc c cs)
  let ?st = "commits cs (initial now)"
  have idx: "historyIndex ?st = int (length cs) - 1"
    and h: "history ?st = drop (length cs - 50) cs"
    using snoc by auto
  have "js_slice (history ?st) 0 (historyIndex ?st + 1) = history ?st"
    by (simp add: js_slice_prefix idx h)
  then have "history (commit c ?st) =
      drop (length (history ?st @ [c]) - 50) (history ?st @ [c])"
    by (simp add: commit_def history_saveToHistory js_slice_from_50)
  also have "\<dots> = drop (length (cs @ [c]) - 50) (cs @ [c])"
  proof (cases "length cs < 50")
    case True
    then show ?thesis by (simp add: h)
  next
    case False
    then have "length cs - (length cs - 50 + 49) + (length cs - 50) = length cs - 49"
      by arith
    with False show ?thesis by (simp add: h)
  qed
  finally show ?case
    by (simp add: commits_append commit_def historyIndex_saveToHistory idx)
qed

lemma historyIndex_step:
  assumes "step e st = Inr st'" and "- 1 \<le> historyIndex st"
  shows "- 1 \<le> historyIndex st'"
proof (cases e)
  case Undo
  with assms show ?thesis by (auto simp add: undo_def split: if_splits option.splits)
next
  case Redo
  with assms show ?thesis by (auto simp add: redo_def split: if_splits option.splits)
qed (use assms in \<open>auto simp add: handleContentChange_def typing_timeout_fires_def
      handleTitleChange_def handleTextSelection_def applyFormatting_def importDocument_def
      reader_loads_def reader_onload_def remote_cursor_tick_def saveToHistory_def Let_def
      split: option.splits prod.splits\<close>)

text \<open>The index never falls below the \<open>-1\<close> of the first render.\<close>

lemma historyIndex_run:
  "run es st = Inr st' \<Longrightarrow> - 1 \<le> historyIndex st \<Longrightarrow> - 1 \<le> historyIndex st'"
proof (induction es arbitrary: st)
  case Nil
  then show ?case by simp
next
  case (Cons e es)
  then show ?case
    by (auto split: sum.splits dest: historyIndex_step)
qed

lemma typed_commit:
  "history (typing_timeout_fires (handleContentChange c p now st)) = history (commit c st) \<and>
   historyIndex (typing_timeout_fires (handleContentChange c p now st)) =
     historyIndex (commit c st)"
  by (simp add: typing_timeout_fires_def handleContentChange_def commit_def
      saveToHistory_def Let_def)

lemma length_history_commit:
  assumes "- 1 \<le> historyIndex st"
  shows "int (length (history (commit c st))) \<le> historyIndex st + 2"
proof -
  have "length (js_slice (history st) 0 (historyIndex st + 1)) \<le> nat (historyIndex st + 1)"
    using assms by (simp add: js_slice_prefix)
  then show ?thesis
    using assms by (simp add: commit_def history_saveToHistory js_slice_from_50)
qed

lemma redo_commit:
  assumes "- 1 \<le> historyIndex st"
  shows "redo (commit c st) = Inr (commit c st)"
proof -
  have "historyIndex (commit c st) = historyIndex st + 1"
    by (simp add: commit_def historyIndex_saveToHistory)
  with length_history_commit [OF assms, of c] show ?thesis
    by (simp add: redo_def)
qed

text \<open>
  Claim C1 (the index stays inside the log, and points at the last entry after every
  commit, also at capacity). The code advances \<open>historyIndex\<close> by one on every commit
  and does not take the evicted entry into account. After 51 edits, each followed by
  the typing timer, the log holds 50 entries and \<open>historyIndex\<close> is 50, which is not an
  index of the log; after 52 such edits an undo reads \<open>history[50]\<close>, which is
  undefined, and the render that follows throws. For every sequence of commits from
  the first render the index is the number of commits minus one, while the log never
  holds more than 50 entries.
\<close>

theorem historyIndex_leaves_log_at_capacity:
  "(case run (type_and_wait (replicate 51 ''x'')) (initial []) of
      Inl e \<Rightarrow> False
    | Inr st \<Rightarrow> length (history st) = 50 \<and> historyIndex st = 50 \<and>
        \<not> historyIndex st < int (length (history st))) \<and>
   run (type_and_wait (replicate 52 ''x'') @ [Undo]) (initial []) = Inl TypeError \<and>
   historyIndex (commits cs (initial now)) = int (length cs) - 1 \<and>
   length (history (commits cs (initial now))) = min (length cs) 50"
proof -
  have "(case run (type_and_wait (replicate 51 ''x'')) (initial []) of
      Inl e \<Rightarrow> False
    | Inr st \<Rightarrow> length (history st) = 50 \<and> historyIndex st = 50 \<and>
        \<not> historyIndex st < int (length (history st)))"
    by code_simp
  moreover have "run (type_and_wait (replicate 52 ''x'') @ [Undo]) (initial []) =
      Inl TypeError"
    by code_simp
  moreover have "length (history (commits cs (initial now))) = min (length cs) 50"
    by (simp add: commits_initial)
  ultimately show ?thesis
    by (simp add: commits_initial)
qed

text \<open>
  Claim C2 (the log never holds more than 50 entries, and the oldest entry is the one
  evicted). No state that a sequence of events reaches from the first render has more
  than 50 entries, and no call of \<open>saveToHistory\<close> returns more than 50, whatever index
  its closure has captured. A sequence of commits leaves its last 50 contents in the
  log, in order. A call on a full log whose captured index cuts nothing off drops the
  first entry and appends the new one.
\<close>

theorem history_bounded_fifo:
  "(run es (initial now) = Inr st \<longrightarrow> length (history st) \<le> 50) \<and>
   length (history (saveToHistory hi c st')) \<le> 50 \<and>
   history (commits cs (initial now)) = drop (length cs - 50) cs \<and>
   (length (history st') = 50 \<and> 49 \<le> hi \<longrightarrow>
      history (saveToHistory hi c st') = tl (history st') @ [c])"
  using length_history_run [of es "initial now" st] length_history_saveToHistory
    commits_initial fifo_step
  by (simp add: initial_def)

theorem history_bounded_fifo_witness:
  "run [ContentChange ''a'' 1 [], TypingTimeout] (initial []) =
     Inr (typing_timeout_fires (handleContentChange ''a'' 1 [] (initial []))) \<and>
   history (typing_timeout_fires (handleContentChange ''a'' 1 [] (initial []))) = [''a''] \<and>
   length (history (commits (replicate 50 ''x'') (initial []))) = 50 \<and>
   (49::int) \<le> 49 \<and>
   history (saveToHistory 49 ''y'' (commits (replicate 50 ''x'') (initial []))) =
     replicate 49 ''x'' @ [''y'']"
proof -
  let ?full = "commits (replicate 50 ''x'') (initial [])"
  have r: "run [ContentChange ''a'' 1 [], TypingTimeout] (initial []) =
      Inr (typing_timeout_fires (handleContentChange ''a'' 1 [] (initial [])))"
    by simp
  have a: "history (typing_timeout_fires (handleContentChange ''a'' 1 [] (initial []))) =
      [''a'']"
    by code_simp
  have f: "history ?full = replicate 50 ''x''"
    by code_simp
  have t: "tl (replicate 50 ''x'') = replicate 49 ''x''"
    by code_simp
  from history_bounded_fifo [of "[ContentChange ''a'' 1 [], TypingTimeout]" "[]"
      "typing_timeout_fires (handleContentChange ''a'' 1 [] (initial []))" 49 "''y''" ?full]
    r a f t
  show ?thesis by simp
qed

text \<open>
  A commit that runs in the state whose \<open>historyIndex\<close> its closure has captured keeps
  the entries up to and including that index, appends the content and keeps the last
  50 of the result. The guard of \<open>redo\<close> is false afterwards. An edit whose typing timer
  runs out before anything else happens is such a commit.
\<close>

lemma commit_in_order:
  assumes "- 1 \<le> historyIndex st"
  shows
    "history (commit c st) =
       js_slice_from (take (nat (historyIndex st + 1)) (history st) @ [c]) (- 50) \<and>
     \<not> historyIndex (commit c st) < int (length (history (commit c st))) - 1 \<and>
     redo (commit c st) = Inr (commit c st) \<and>
     history (typing_timeout_fires (handleContentChange c p now st)) = history (commit c st) \<and>
     historyIndex (typing_timeout_fires (handleContentChange c p now st)) =
       historyIndex (commit c st)"
proof -
  have h: "history (commit c st) =
      js_slice_from (take (nat (historyIndex st + 1)) (history st) @ [c]) (- 50)"
    using assms by (simp add: commit_def history_saveToHistory js_slice_prefix)
  have idx: "historyIndex (commit c st) = historyIndex st + 1"
    by (simp add: commit_def historyIndex_saveToHistory)
  have guard: "\<not> historyIndex (commit c st) < int (length (history (commit c st))) - 1"
    using length_history_commit [OF assms, of c] idx by simp
  from h guard redo_commit [OF assms, of c] typed_commit [of c p now st]
  show ?thesis by blast
qed

text \<open>
  Claim C5 (a commit after undo discards every entry after the current index, so that
  redo is unavailable afterwards). The commit of the typing timer cuts the log at the
  \<open>historyIndex\<close> of the render in which the key was pressed, not at the current one,
  and \<open>undo\<close> does not clear the timer. With \<open>"a"\<close> and \<open>"ab"\<close> committed, the user
  types \<open>"abc"\<close> and clicks undo before the timer has run out: the index is 0 and the
  content \<open>"a"\<close>. The commit that follows keeps the entry \<open>"ab"\<close> after the current index:
  the log is \<open>["a", "ab", "abc"]\<close> with the index at 1, and \<open>redo\<close> is available and
  brings \<open>"abc"\<close> back. When the edit follows the undos, as in the scenario of the
  specification, the log ends as \<open>["a", "az"]\<close> and \<open>redo\<close> changes nothing.
\<close>

theorem commit_after_undo_keeps_redo:
  "(case run [ContentChange ''a'' 1 [], TypingTimeout,
              ContentChange ''ab'' 2 [], TypingTimeout,
              ContentChange ''abc'' 3 [], Undo] (initial []) of
      Inl e \<Rightarrow> False
    | Inr s \<Rightarrow> history s = [''a'', ''ab''] \<and> historyIndex s = 0 \<and>
        content (document s) = ''a'' \<and>
        typingTimeout s = Some \<lparr>saved_content = ''abc'', captured_index = 1\<rparr>) \<and>
   (case run [ContentChange ''a'' 1 [], TypingTimeout,
              ContentChange ''ab'' 2 [], TypingTimeout,
              ContentChange ''abc'' 3 [], Undo, TypingTimeout] (initial []) of
      Inl e \<Rightarrow> False
    | Inr s \<Rightarrow> history s = [''a'', ''ab'', ''abc''] \<and> historyIndex s = 1 \<and>
        content (document s) = ''a'' \<and>
        historyIndex s < int (length (history s)) - 1 \<and>
        (case redo s of
           Inl e \<Rightarrow> False
         | Inr s' \<Rightarrow> historyIndex s' = 2 \<and> content (document s') = ''abc'')) \<and>
   (case run [ContentChange ''a'' 1 [], TypingTimeout,
              ContentChange ''ab'' 2 [], TypingTimeout,
              ContentChange ''abc'' 3 [], TypingTimeout,
              Undo, Undo,
              ContentChange ''az'' 2 [], TypingTimeout] (initial []) of
      Inl e \<Rightarrow> False
    | Inr s \<Rightarrow> history s = [''a'', ''az''] \<and> historyIndex s = 1 \<and> redo s = Inr s)"
  by code_simp

text \<open>
  Claim C6 (undo followed by redo restores the content the document had before the
  undo). As stated the claim fails: \<open>undo\<close> and \<open>redo\<close> copy log entries into the
  document, and an edit whose typing timer has not run out yet is not in the log. After
  three committed edits, one undo and a further keystroke, the index is 1 of 3 entries
  and the content is \<open>"abX"\<close>; undo and then redo leave the content \<open>"ab"\<close>.
\<close>

theorem undo_redo_loses_uncommitted_edit:
  "(case run [ContentChange ''a'' 1 [], TypingTimeout,
              ContentChange ''ab'' 2 [], TypingTimeout,
              ContentChange ''abc'' 3 [], TypingTimeout,
              Undo, ContentChange ''abX'' 3 []] (initial []) of
      Inl e \<Rightarrow> False
    | Inr st \<Rightarrow>
        0 < historyIndex st \<and> historyIndex st < int (length (history st)) - 1 \<and>
        content (document st) = ''abX'' \<and>
        (case undo_then_redo st of
           Inl e \<Rightarrow> False
         | Inr st' \<Rightarrow> content (document st') = ''ab'' \<and> content (document st') \<noteq> content (document st)))"
  by code_simp

text \<open>
  Claim C6, amended: when the index is inside the log and above 0, and the content of
  the document is the log entry at the index (no edit is waiting to be committed),
  undo followed by redo gives back the state as it was, and so the content.
\<close>

theorem undo_redo_restores:
  assumes "0 < historyIndex st" and "historyIndex st < int (length (history st))"
    and "content (document st) = history st ! nat (historyIndex st)"
  shows "undo_then_redo st = Inr st \<and>
         (\<exists>st1. undo st = Inr st1 \<and> historyIndex st1 = historyIndex st - 1 \<and>
            content (document st1) = history st ! nat (historyIndex st - 1))"
  using assms
  by (simp add: undo_then_redo_def undo_def redo_def js_index_def)

theorem undo_redo_restores_witness:
  "0 < historyIndex (commits [''a'', ''ab''] (initial [])\<lparr>document := \<lparr>title = [], content = ''ab'',
       lastModified = [], version = 3\<rparr>\<rparr>) \<and>
   historyIndex (commits [''a'', ''ab''] (initial [])\<lparr>document := \<lparr>title = [], content = ''ab'',
       lastModified = [], version = 3\<rparr>\<rparr>) <
     int (length (history (commits [''a'', ''ab''] (initial [])\<lparr>document := \<lparr>title = [],
       content = ''ab'', lastModified = [], version = 3\<rparr>\<rparr>))) \<and>
   content (document (commits [''a'', ''ab''] (initial [])\<lparr>document := \<lparr>title = [], content = ''ab'',
       lastModified = [], version = 3\<rparr>\<rparr>)) = ''ab'' \<and>
   history (commits [''a'', ''ab''] (initial [])\<lparr>document := \<lparr>title = [], content = ''ab'',
       lastModified = [], version = 3\<rparr>\<rparr>) = [''a'', ''ab''] \<and>
   undo_then_redo (commits [''a'', ''ab''] (initial [])\<lparr>document := \<lparr>title = [], content = ''ab'',
       lastModified = [], version = 3\<rparr>\<rparr>) =
     Inr (commits [''a'', ''ab''] (initial [])\<lparr>document := \<lparr>title = [], content = ''ab'',
       lastModified = [], version = 3\<rparr>\<rparr>)"
proof -
  let ?st = "commits [''a'', ''ab''] (initial [])\<lparr>document := \<lparr>title = [], content = ''ab'',
       lastModified = [], version = 3\<rparr>\<rparr>"
  have h: "history ?st = [''a'', ''ab''] \<and> historyIndex ?st = 1"
    by code_simp
  then have a: "0 < historyIndex ?st" and b: "historyIndex ?st < int (length (history ?st))"
    and c: "content (document ?st) = history ?st ! nat (historyIndex ?st)"
    by simp_all
  have d: "content (document ?st) = ''ab''"
    by code_simp
  from undo_redo_restores [OF a b c] a b d h show ?thesis by simp
qed

subsection \<open>Cursors\<close>

lemma getCursorPosition_eq:
  "getCursorPosition pos c =
     Inr \<lparr>line = int (length (js_split newline (take (nat pos) c))),
          column = int (length (last (js_split newline (take (nat pos) c)))) + 1\<rparr>"
proof -
  let ?ls = "js_split newline (take (nat pos) c)"
  have "?ls \<noteq> []" by (rule js_split_not_Nil)
  then have "js_index ?ls (int (length ?ls) - 1) = Some (last ?ls)"
    by (cases ?ls rule: rev_cases) (auto simp add: js_index_def nth_append)
  then show ?thesis
    by (simp add: getCursorPosition_def js_substring_prefix Let_def)
qed

text \<open>
  Claim C3 (every stored cursor is clamped into \<open>[0, content.length]\<close>, and no
  reachable state holds a larger one). As stated the claim fails: nothing in the code
  clamps a cursor. The first render already holds the cursors 15 and 32 over an empty
  content, and after two committed edits an undo shortens the content to \<open>"a"\<close> while
  the cursor of user 1 stays at 2.
\<close>

theorem cursor_beyond_content:
  "\<not> cursors_in_range (initial []) \<and>
   (case run [ContentChange ''a'' 1 [], TypingTimeout,
              ContentChange ''ab'' 2 [], TypingTimeout, Undo] (initial []) of
      Inl e \<Rightarrow> False
    | Inr st \<Rightarrow> content (document st) = ''a'' \<and> cursor (users st ! 0) = 2 \<and>
        \<not> cursors_in_range st)"
  by code_simp

text \<open>
  Claim C3, amended: a cursor update stores exactly the offset it is given, whatever
  its value, in the cursor of every user with the id it names, and leaves every other
  user and every other field of a user as it is. A keystroke stores the textarea's
  \<open>selectionStart\<close> for user 1, next to the new content. The simulated remote update,
  when its random test passes and an active user other than user 1 is picked, stores
  the computed \<open>Math.floor(Math.random() * content.length)\<close> for the picked user and
  changes nothing else of the state; otherwise it changes nothing at all. The
  operations that change the content without a cursor update (undo, redo, formatting
  insertion, the load of an imported file) and the typing timer leave every stored
  cursor as it is.
\<close>

theorem cursor_update_stores_offset:
  "users (handleContentChange c p now st) =
     map (\<lambda>u. if user_id u = 1 then u\<lparr>cursor := p\<rparr> else u) (users st) \<and>
   content (document (handleContentChange c p now st)) = c \<and>
   (js_index (filter (\<lambda>u. active u \<and> user_id u \<noteq> 1) (users tk)) pick = Some ru \<longrightarrow>
      remote_cursor_tick True pick q tk =
        tk\<lparr>users := map (\<lambda>u. if user_id u = user_id ru then u\<lparr>cursor := q\<rparr> else u)
                       (users tk)\<rparr> \<and>
      ru \<in> set (users tk) \<and> active ru \<and> user_id ru \<noteq> 1) \<and>
   (js_index (filter (\<lambda>u. active u \<and> user_id u \<noteq> 1) (users tk)) miss = None \<longrightarrow>
      remote_cursor_tick True miss q tk = tk) \<and>
   remote_cursor_tick False pick q tk = tk \<and>
   (case undo s of Inl e \<Rightarrow> True | Inr s' \<Rightarrow> users s' = users s) \<and>
   (case redo s of Inl e \<Rightarrow> True | Inr s' \<Rightarrow> users s' = users s) \<and>
   users (applyFormatting f a b s) = users s \<and>
   users (reader_onload r s) = users s \<and>
   users (typing_timeout_fires s) = users s"
proof -
  let ?act = "filter (\<lambda>u. active u \<and> user_id u \<noteq> 1) (users tk)"
  have key: "users (handleContentChange c p now st) =
      map (\<lambda>u. if user_id u = 1 then u\<lparr>cursor := p\<rparr> else u) (users st)"
    by (simp add: handleContentChange_def set_cursor_def)
  have cont: "content (document (handleContentChange c p now st)) = c"
    by (simp add: handleContentChange_def)
  have hit: "remote_cursor_tick True pick q tk =
        tk\<lparr>users := map (\<lambda>u. if user_id u = user_id ru then u\<lparr>cursor := q\<rparr> else u)
                       (users tk)\<rparr> \<and>
      ru \<in> set (users tk) \<and> active ru \<and> user_id ru \<noteq> 1"
    if "js_index ?act pick = Some ru"
  proof -
    from that have n: "nat pick < length ?act" and ru: "ru = ?act ! nat pick"
      by (auto simp add: js_index_def split: if_splits)
    from n have "?act ! nat pick \<in> set ?act" by (rule nth_mem)
    with ru have mem: "ru \<in> set ?act" by simp
    then have props: "ru \<in> set (users tk) \<and> active ru \<and> user_id ru \<noteq> 1" by simp
    from n have "?act \<noteq> []" by (cases ?act) simp_all
    with that have "remote_cursor_tick True pick q tk =
        tk\<lparr>users := map (\<lambda>u. if user_id u = user_id ru then u\<lparr>cursor := q\<rparr> else u)
                       (users tk)\<rparr>"
      by (simp add: remote_cursor_tick_def set_cursor_def Let_def)
    with props show ?thesis by blast
  qed
  have nohit: "remote_cursor_tick True miss q tk = tk" if "js_index ?act miss = None"
    using that by (simp add: remote_cursor_tick_def Let_def)
  have off: "remote_cursor_tick False pick q tk = tk"
    by (simp add: remote_cursor_tick_def)
  have un: "(case undo s of Inl e \<Rightarrow> True | Inr s' \<Rightarrow> users s' = users s)"
    by (simp add: undo_def split: option.splits)
  have re: "(case redo s of Inl e \<Rightarrow> True | Inr s' \<Rightarrow> users s' = users s)"
    by (simp add: redo_def split: option.splits)
  have rest: "users (applyFormatting f a b s) = users s \<and>
      users (reader_onload r s) = users s \<and> users (typing_timeout_fires s) = users s"
    by (simp add: applyFormatting_def reader_onload_def typing_timeout_fires_def
        saveToHistory_def Let_def split: option.splits)
  from key cont hit nohit off un re rest show ?thesis by blast
qed

theorem cursor_update_stores_offset_witness:
  "js_index (filter (\<lambda>u. active u \<and> user_id u \<noteq> 1)
      (users (handleContentChange ''abcd'' 4 [] (initial [])))) 0 =
     Some \<lparr>user_id = 2, name = ''Alice'', color = ''#EF4444'', cursor = 15, active = True\<rparr> \<and>
   js_index (filter (\<lambda>u. active u \<and> user_id u \<noteq> 1)
      (users (handleContentChange ''abcd'' 4 [] (initial [])))) 1 = None \<and>
   map cursor (users (handleContentChange ''abcd'' 4 [] (initial []))) = [4, 15, 32] \<and>
   map cursor (users (remote_cursor_tick True 0 2
      (handleContentChange ''abcd'' 4 [] (initial [])))) = [4, 2, 32] \<and>
   map cursor (users (remote_cursor_tick True 0 9
      (handleContentChange ''abcd'' 4 [] (initial [])))) = [4, 9, 32] \<and>
   remote_cursor_tick True 1 2 (handleContentChange ''abcd'' 4 [] (initial [])) =
     handleContentChange ''abcd'' 4 [] (initial [])"
proof -
  let ?tk = "handleContentChange ''abcd'' 4 [] (initial [])"
  let ?alice = "\<lparr>user_id = 2, name = ''Alice'', color = ''#EF4444'', cursor = 15,
      active = True\<rparr>"
  let ?act = "filter (\<lambda>u. active u \<and> user_id u \<noteq> 1) (users ?tk)"
  have u: "users ?tk =
      [\<lparr>user_id = 1, name = ''You'', color = ''#3B82F6'', cursor = 4, active = True\<rparr>,
       ?alice,
       \<lparr>user_id = 3, name = ''Bob'', color = ''#10B981'', cursor = 32, active = False\<rparr>]"
    by (simp add: handleContentChange_def initial_def initial_users_def set_cursor_def)
  have h0: "js_index ?act 0 = Some ?alice"
    by (simp add: u js_index_def)
  have h1: "js_index ?act 1 = None"
    by (simp add: u js_index_def)
  note thm2 = cursor_update_stores_offset [where tk = ?tk and pick = 0 and miss = 1
      and q = 2 and ru = ?alice]
  note thm9 = cursor_update_stores_offset [where tk = ?tk and pick = 0 and miss = 1
      and q = 9 and ru = ?alice]
  from thm2 h0 have t2: "remote_cursor_tick True 0 2 ?tk =
      ?tk\<lparr>users := map (\<lambda>u. if user_id u = user_id ?alice then u\<lparr>cursor := 2\<rparr> else u)
                      (users ?tk)\<rparr>"
    by blast
  from thm9 h0 have t9: "remote_cursor_tick True 0 9 ?tk =
      ?tk\<lparr>users := map (\<lambda>u. if user_id u = user_id ?alice then u\<lparr>cursor := 9\<rparr> else u)
                      (users ?tk)\<rparr>"
    by blast
  from thm2 h1 have t1: "remote_cursor_tick True 1 2 ?tk = ?tk"
    by blast
  have c0: "map cursor (users ?tk) = [4, 15, 32]"
    by (simp add: u)
  have c2: "map cursor (users (remote_cursor_tick True 0 2 ?tk)) = [4, 2, 32]"
    by (simp add: t2 u)
  have c9: "map cursor (users (remote_cursor_tick True 0 9 ?tk)) = [4, 9, 32]"
    by (simp add: t9 u)
  from h0 h1 c0 c2 c9 t1 show ?thesis by blast
qed

text \<open>
  Claim C7 (the position of an offset: the line is the number of segments of the
  prefix, the column the length of its final segment plus one). The prefix that
  \<open>substring(0, position)\<close> returns is \<open>take (nat pos) c\<close>, which is the prefix of length
  \<open>pos\<close> for every offset within \<open>[0, content.length]\<close>. The two positions named in the
  specification are as it gives them.
\<close>

theorem getCursorPosition_segments:
  "getCursorPosition pos c =
     Inr \<lparr>line = int (segment_count (take (nat pos) c)),
          column = int (length (final_segment (take (nat pos) c))) + 1\<rparr> \<and>
   getCursorPosition 0 [] = Inr \<lparr>line = 1, column = 1\<rparr> \<and>
   getCursorPosition 5 [CHR ''a'', CHR ''b'', newline, CHR ''c'', CHR ''d''] =
     Inr \<lparr>line = 2, column = 3\<rparr>"
proof -
  have "getCursorPosition pos c =
     Inr \<lparr>line = int (segment_count (take (nat pos) c)),
          column = int (length (final_segment (take (nat pos) c))) + 1\<rparr>"
    by (simp add: getCursorPosition_eq length_js_split last_js_split segment_count_def
        final_segment_def)
  moreover have "getCursorPosition 0 [] = Inr \<lparr>line = 1, column = 1\<rparr>"
    by (simp add: getCursorPosition_eq)
  moreover have "getCursorPosition 5 [CHR ''a'', CHR ''b'', newline, CHR ''c'', CHR ''d''] =
     Inr \<lparr>line = 2, column = 3\<rparr>"
    by (simp add: getCursorPosition_eq newline_def)
  ultimately show ?thesis by blast
qed

text \<open>
  Claim C8 (reading a position is clamped and total). For an offset beyond the end of
  the content \<open>getCursorPosition\<close> returns a position, the one of the end of the
  content.
\<close>

theorem getCursorPosition_clamped:
  assumes "int (length c) < pos"
  shows "getCursorPosition pos c = getCursorPosition (int (length c)) c \<and>
         (\<exists>p. getCursorPosition pos c = Inr p)"
  using assms by (simp add: getCursorPosition_eq)

theorem getCursorPosition_clamped_witness:
  "int (length ''ab'') < 9 \<and>
   getCursorPosition 9 ''ab'' = getCursorPosition (int (length ''ab'')) ''ab'' \<and>
   getCursorPosition 9 ''ab'' = Inr \<lparr>line = 1, column = 3\<rparr>"
  using getCursorPosition_clamped [of "''ab''" 9]
  by (simp add: getCursorPosition_eq newline_def)

subsection \<open>The document\<close>

text \<open>No event lowers the version of the document.\<close>

lemma version_step:
  assumes "step e st = Inr st'"
  shows "version (document st) \<le> version (document st')"
proof (cases e)
  case Undo
  with assms show ?thesis by (auto simp add: undo_def split: if_splits option.splits)
next
  case Redo
  with assms show ?thesis by (auto simp add: redo_def split: if_splits option.splits)
qed (use assms in \<open>auto simp add: handleContentChange_def typing_timeout_fires_def
      handleTitleChange_def handleTextSelection_def applyFormatting_def importDocument_def
      reader_loads_def reader_onload_def remote_cursor_tick_def saveToHistory_def Let_def
      split: option.splits prod.splits\<close>)

lemma version_run: "run es st = Inr st' \<Longrightarrow> version (document st) \<le> version (document st')"
proof (induction es arbitrary: st)
  case Nil
  then show ?case by simp
next
  case (Cons e es)
  then show ?case
    by (fastforce split: sum.splits dest: version_step)
qed

lemma version_edit_import:
  "version (document (handleContentChange c p now st)) = version (document st) + 1 \<and>
   lastModified (document (handleContentChange c p now st)) = now \<and>
   version (document (reader_onload r st)) = version (document st) + 1"
  by (simp add: handleContentChange_def reader_onload_def saveToHistory_def Let_def)

text \<open>
  Claim C4 (every operation that replaces the content, formatting insertion and file
  import among them, increments the version by one and updates \<open>lastModified\<close>). The
  keystroke handler does both. \<open>applyFormatting\<close> does neither: with \<open>"ab"\<close> typed and
  selected, the bold button replaces the content by \<open>"**ab**"\<close> and leaves the version
  at 2 and \<open>lastModified\<close> at the time of the keystroke. The \<open>onload\<close> callback of an
  import increments the version and leaves \<open>lastModified\<close> as it was.
\<close>

theorem formatting_leaves_version:
  "(case run [ContentChange ''ab'' 2 ''t1'', TextSelection 0 2] (initial ''t0'') of
      Inl e \<Rightarrow> False
    | Inr st \<Rightarrow> content (document st) = ''ab'' \<and> version (document st) = 2 \<and>
        lastModified (document st) = ''t1'' \<and>
        content (document (applyFormatting Bold 0 2 st)) = ''**ab**'' \<and>
        version (document (applyFormatting Bold 0 2 st)) = 2 \<and>
        lastModified (document (applyFormatting Bold 0 2 st)) = ''t1'') \<and>
   lastModified (document (reader_onload r st')) = lastModified (document st')"
  by (simp add: handleContentChange_def handleTextSelection_def applyFormatting_def
      initial_def js_substring_def js_substring_from_def clamp_index_def wrap_format_def
      reader_onload_def saveToHistory_def Let_def)

text \<open>
  Claim C9 (file import replaces the content by the file's text, sets the title to the
  file name without its extension and commits at once). The \<open>onload\<close> callback stores
  the text and the stripped name and calls \<open>saveToHistory\<close> itself, so the text is the
  newest entry of the log when the callback returns; the typing timer is not touched.
  With no other read in flight, choosing a file and its load run that callback with the
  index of the render in which the file was chosen. A name that ends in a dot and an
  extension of one or more characters other than dot and slash loses both; a name with
  no dot is kept.
\<close>

theorem import_replaces_and_commits:
  "content (document (reader_onload p st)) = file_text p \<and>
   title (document (reader_onload p st)) = strip_extension (file_name p) \<and>
   history (reader_onload p st) =
     js_slice_from (js_slice (history st) 0 (read_captured_index p + 1) @ [file_text p])
       (- 50) \<and>
   last (history (reader_onload p st)) = file_text p \<and>
   historyIndex (reader_onload p st) = historyIndex st + 1 \<and>
   typingTimeout (reader_onload p st) = typingTimeout st \<and>
   (readers st = [] \<longrightarrow>
      reader_loads 0 (importDocument (Some (nm, body)) st) =
        reader_onload \<lparr>file_name = nm, file_text = body,
                       read_captured_index = historyIndex st\<rparr> st) \<and>
   (ext \<noteq> [] \<and> no_slash_dot ext \<longrightarrow> strip_extension (base @ CHR ''.'' # ext) = base) \<and>
   (CHR ''.'' \<notin> set plain \<longrightarrow> strip_extension plain = plain)"
  using strip_extension_ext [of ext base] strip_extension_no_dot [of plain]
    last_js_slice_from_50 [of "js_slice (history st) 0 (read_captured_index p + 1)"
      "file_text p"]
  by (simp add: reader_onload_def saveToHistory_def reader_loads_def importDocument_def
      Let_def)

theorem import_replaces_and_commits_witness:
  "readers (initial []) = [] \<and> ''txt'' \<noteq> [] \<and> no_slash_dot ''txt'' \<and>
   CHR ''.'' \<notin> set ''README'' \<and>
   strip_extension ''notes.txt'' = ''notes'' \<and> strip_extension ''README'' = ''README'' \<and>
   content (document (reader_loads 0
     (importDocument (Some (''notes.txt'', ''hello'')) (initial [])))) = ''hello'' \<and>
   title (document (reader_loads 0
     (importDocument (Some (''notes.txt'', ''hello'')) (initial [])))) = ''notes'' \<and>
   history (reader_loads 0
     (importDocument (Some (''notes.txt'', ''hello'')) (initial []))) = [''hello'']"
  using import_replaces_and_commits [where p = "\<lparr>file_name = ''notes.txt'',
      file_text = ''hello'', read_captured_index = - 1\<rparr>" and st = "initial []"
      and nm = "''notes.txt''" and body = "''hello''" and ext = "''txt''"
      and base = "''notes''" and plain = "''README''"]
  by (simp add: initial_def js_slice_def js_slice_from_def rel_index_def)

text \<open>
  Claim C10 (with a non-empty selection \<open>applyFormatting\<close> replaces the content by the
  text before the selection, the selection between its markers and the text after it,
  and leaves version, \<open>lastModified\<close>, the log, the index and the typing timer as they
  are). Of the whole state only the content of the document and the toolbar flag of
  the format change.
\<close>

theorem applyFormatting_frame:
  assumes "selectedText st \<noteq> []"
  shows
    "document (applyFormatting f start fin st) =
       (document st)\<lparr>content := take (nat start) (content (document st)) @
                   wrap_format f (selectedText st) @ drop (nat fin) (content (document st))\<rparr> \<and>
     version (document (applyFormatting f start fin st)) = version (document st) \<and>
     lastModified (document (applyFormatting f start fin st)) = lastModified (document st) \<and>
     title (document (applyFormatting f start fin st)) = title (document st) \<and>
     history (applyFormatting f start fin st) = history st \<and>
     historyIndex (applyFormatting f start fin st) = historyIndex st \<and>
     typingTimeout (applyFormatting f start fin st) = typingTimeout st \<and>
     applyFormatting f start fin st =
       st\<lparr>document := document (applyFormatting f start fin st),
          formatting := toggle_flag f (formatting st)\<rparr> \<and>
     wrap_format Bold s = ''**'' @ s @ ''**'' \<and>
     wrap_format Italic s = ''*'' @ s @ ''*'' \<and>
     wrap_format Underline s = ''__'' @ s @ ''__''"
  using assms
  by (simp add: applyFormatting_def js_substring_prefix js_substring_from_drop
      wrap_format_def Let_def)

theorem applyFormatting_frame_witness:
  "selectedText (handleTextSelection 1 3
      (handleContentChange ''abcd'' 4 ''t1'' (initial ''t0''))) \<noteq> [] \<and>
   document (applyFormatting Italic 1 3
         (handleTextSelection 1 3 (handleContentChange ''abcd'' 4 ''t1'' (initial ''t0'')))) =
     \<lparr>title = ''Untitled Document'', content = ''a*bc*d'', lastModified = ''t1'',
      version = 2\<rparr>"
  using applyFormatting_frame [of "handleTextSelection 1 3
      (handleContentChange ''abcd'' 4 ''t1'' (initial ''t0''))" Italic 1 3]
  by (simp add: handleTextSelection_def handleContentChange_def initial_def js_substring_def
      clamp_index_def wrap_format_def Let_def)

end
